theory Spec2Isabelle
  imports Complex_Main
begin

section \<open>Three-way match of an invoice against a purchase order and a goods receipt\<close>

text \<open>
  A shallow embedding of \<^verbatim>\<open>perform_three_way_match\<close> of \<^verbatim>\<open>backend/server.py\<close>.

  Conventions of the embedding:
  \<^item> A pydantic model is a record with the fields of the class, in the order of the class;
    \<^verbatim>\<open>Optional[str]\<close> is \<open>string option\<close>. Fields that several classes share are
    written with the record's name in front (\<open>Invoice.line_items\<close>). The field \<^verbatim>\<open>id\<close> is
    written \<open>id'\<close>.
  \<^item> A Python \<^verbatim>\<open>float\<close> is a \<open>py_float\<close>: a finite number, an infinity or NaN. What
    Python computes exactly (comparisons, \<^verbatim>\<open>abs\<close>, the test for a zero divisor) is defined
    here. What the platform rounds (addition, subtraction, multiplication, division) is a
    parameter, so that no theorem rests on an arithmetic that the doubles do not have.
  \<^item> What the function takes from outside the repository is a parameter: the builtin
    \<^verbatim>\<open>str.lower\<close>, the four arithmetic operations of the floats, the string of
    \<^verbatim>\<open>uuid.uuid4()\<close> and the two strings of \<^verbatim>\<open>datetime.now().isoformat()\<close>. Every
    theorem holds for every value of them.
  \<^item> The dictionary appended to \<^verbatim>\<open>line_matches\<close> has the same eleven keys on every
    path, so it is a record.
\<close>

subsection \<open>Python floats\<close>

text \<open>
  The finite floats are real numbers: every double is one, and a statement about every real
  holds of the doubles. The two zeros of the doubles are the one number 0, which is how Python's
  comparisons see them. The integer 0 of the source (\<^verbatim>\<open>else 0\<close>, \<^verbatim>\<open>> 0\<close>) is this 0 as
  well, and the integer 100 is the float 100.
\<close>

datatype py_float = Finite real | PosInf | NegInf | NaN

text \<open>Python's \<^verbatim>\<open>>\<close> and \<^verbatim>\<open><=\<close> on floats: exact, and false whenever NaN takes part.\<close>

fun py_gt :: "py_float \<Rightarrow> py_float \<Rightarrow> bool" where
  "py_gt (Finite a) (Finite b) = (a > b)"
| "py_gt (Finite a) NegInf = True"
| "py_gt PosInf (Finite b) = True"
| "py_gt PosInf NegInf = True"
| "py_gt _ _ = False"

fun py_le :: "py_float \<Rightarrow> py_float \<Rightarrow> bool" where
  "py_le (Finite a) (Finite b) = (a \<le> b)"
| "py_le (Finite a) PosInf = True"
| "py_le NegInf (Finite b) = True"
| "py_le NegInf NegInf = True"
| "py_le NegInf PosInf = True"
| "py_le PosInf PosInf = True"
| "py_le _ _ = False"

text \<open>Python's \<^verbatim>\<open>abs\<close> on floats, which is exact.\<close>

fun py_abs :: "py_float \<Rightarrow> py_float" where
  "py_abs (Finite a) = Finite \<bar>a\<bar>"
| "py_abs PosInf = PosInf"
| "py_abs NegInf = PosInf"
| "py_abs NaN = NaN"

datatype py_error = ZeroDivisionError | ValidationError

subsection \<open>Data model\<close>

record LineItem =
  description :: string
  quantity :: py_float
  unit_price :: py_float
  amount :: py_float

record Invoice =
  id' :: "string option"
  invoice_number :: string
  vendor_name :: string
  invoice_date :: string
  total_amount :: py_float
  line_items :: "LineItem list"
  status :: "string option"
  created_at :: "string option"

record PurchaseOrder =
  id' :: "string option"
  po_number :: string
  vendor_name :: string
  po_date :: string
  total_amount :: py_float
  line_items :: "LineItem list"
  status :: "string option"
  created_at :: "string option"

record GoodsReceipt =
  id' :: "string option"
  gr_number :: string
  po_number :: string
  vendor_name :: string
  receipt_date :: string
  line_items :: "LineItem list"
  created_at :: "string option"

text \<open>The dictionary of one invoice line, lines 172 to 184.\<close>

record LineMatch =
  description :: string
  invoice_qty :: py_float
  invoice_price :: py_float
  invoice_amount :: py_float
  po_qty :: py_float
  po_price :: py_float
  gr_qty :: py_float
  price_variance_pct :: py_float
  quantity_variance_pct :: py_float
  amount_variance :: py_float
  status :: string

record VerificationResult =
  id' :: "string option"
  invoice_id :: string
  po_id :: string
  gr_id :: string
  verification_date :: string
  overall_status :: string
  line_item_matches :: "LineMatch list"
  total_variance :: py_float
  price_variance :: py_float
  quantity_variance :: py_float
  created_at :: "string option"

text \<open>
  The constructor of \<^verbatim>\<open>VerificationResult\<close> validates its arguments: \<^verbatim>\<open>invoice_id\<close>,
  \<^verbatim>\<open>po_id\<close> and \<^verbatim>\<open>gr_id\<close> are declared \<^verbatim>\<open>str\<close>, and \<^verbatim>\<open>None\<close> is refused
  with a validation error.
\<close>

definition required_str :: "string option \<Rightarrow> py_error + string" where
  "required_str v = (case v of None \<Rightarrow> Inl ValidationError | Some s \<Rightarrow> Inr s)"

subsection \<open>What comes from outside the repository\<close>

text \<open>
  \<open>float_add\<close>, \<open>float_sub\<close>, \<open>float_mul\<close> and \<open>float_truediv\<close> are the platform's
  \<^verbatim>\<open>+\<close>, \<^verbatim>\<open>-\<close>, \<^verbatim>\<open>*\<close> and \<^verbatim>\<open>/\<close> on floats, with their rounding, their overflow
  to an infinity and their NaN.
\<close>

record Builtins =
  str_lower :: "string \<Rightarrow> string"
  float_add :: "py_float \<Rightarrow> py_float \<Rightarrow> py_float"
  float_sub :: "py_float \<Rightarrow> py_float \<Rightarrow> py_float"
  float_mul :: "py_float \<Rightarrow> py_float \<Rightarrow> py_float"
  float_truediv :: "py_float \<Rightarrow> py_float \<Rightarrow> py_float"
  uuid4_str :: string
  now_verification_date :: string
  now_created_at :: string

text \<open>
  A lowering of the ASCII letters, which is what \<^verbatim>\<open>str.lower\<close> does on ASCII strings. It
  is used to run the model on concrete documents only.
\<close>

definition ascii_lower_char :: "char \<Rightarrow> char" where
  "ascii_lower_char c =
     (case map_of (zip ''ABCDEFGHIJKLMNOPQRSTUVWXYZ'' ''abcdefghijklmnopqrstuvwxyz'') c of
        Some l \<Rightarrow> l
      | None \<Rightarrow> c)"

definition ascii_lower :: "string \<Rightarrow> string" where
  "ascii_lower s = map ascii_lower_char s"

text \<open>
  An arithmetic without rounding on the finite floats. It is what the platform computes
  whenever the operands are finite and the exact result is a double. It is used to run the model
  on concrete documents only, and every number of those runs is a double.
\<close>

definition exact :: "(real \<Rightarrow> real \<Rightarrow> real) \<Rightarrow> py_float \<Rightarrow> py_float \<Rightarrow> py_float" where
  "exact f a b = (case (a, b) of (Finite x, Finite y) \<Rightarrow> Finite (f x y) | _ \<Rightarrow> NaN)"

subsection \<open>The function\<close>

text \<open>
  Python's \<^verbatim>\<open>/\<close>: a divisor that equals zero raises, every other quotient is the
  platform's.
\<close>

definition py_div :: "Builtins \<Rightarrow> py_float \<Rightarrow> py_float \<Rightarrow> py_error + py_float" where
  "py_div env a b = (if b = Finite 0 then Inl ZeroDivisionError else Inr (float_truediv env a b))"

text \<open>
  Python's \<^verbatim>\<open>*\<close>: a product of two finite numbers of which one is zero is zero, for the
  integer 0 of an \<^verbatim>\<open>else\<close> branch and for the float 0.0 alike; every other product is the
  platform's.
\<close>

definition py_mul :: "Builtins \<Rightarrow> py_float \<Rightarrow> py_float \<Rightarrow> py_float" where
  "py_mul env a b =
     (case (a, b) of
        (Finite x, Finite y) \<Rightarrow> if x = 0 \<or> y = 0 then Finite 0 else float_mul env a b
      | _ \<Rightarrow> float_mul env a b)"

text \<open>Line 131: the double that the literal \<^verbatim>\<open>0.05\<close> denotes, which lies a little above 1/20.\<close>

definition tolerance :: py_float where
  "tolerance = Finite (3602879701896397 / 72057594037927936)"

text \<open>
  Lines 139 to 142 and 144 to 147: the first item of the list whose lowered description is the
  lowered description of the invoice line; \<open>None\<close> when the loop ends without a
  \<^verbatim>\<open>break\<close>.
\<close>

fun find_match :: "(string \<Rightarrow> string) \<Rightarrow> LineItem list \<Rightarrow> LineItem \<Rightarrow> LineItem option" where
  "find_match lower [] inv_item = None"
| "find_match lower (item # items) inv_item =
     (if lower (LineItem.description item) = lower (LineItem.description inv_item)
      then Some item
      else find_match lower items inv_item)"

text \<open>Line 156.\<close>

definition price_diff_of :: "Builtins \<Rightarrow> LineItem \<Rightarrow> LineItem \<Rightarrow> py_error + py_float" where
  "price_diff_of env inv_item po_match =
     (if py_gt (unit_price po_match) (Finite 0)
      then py_div env (py_abs (float_sub env (unit_price inv_item) (unit_price po_match)))
             (unit_price po_match)
      else Inr (Finite 0))"

text \<open>Line 157.\<close>

definition qty_diff_of :: "Builtins \<Rightarrow> LineItem \<Rightarrow> LineItem \<Rightarrow> py_error + py_float" where
  "qty_diff_of env inv_item gr_match =
     (if py_gt (quantity gr_match) (Finite 0)
      then py_div env (py_abs (float_sub env (quantity inv_item) (quantity gr_match)))
             (quantity gr_match)
      else Inr (Finite 0))"

text \<open>Line 158.\<close>

definition amount_diff_of :: "Builtins \<Rightarrow> LineItem \<Rightarrow> LineItem \<Rightarrow> LineItem \<Rightarrow> py_float" where
  "amount_diff_of env inv_item po_match gr_match =
     py_abs (float_sub env (amount inv_item) (py_mul env (unit_price po_match) (quantity gr_match)))"

text \<open>The expression \<^verbatim>\<open>"warning" if overall_status == "pass" else "fail"\<close> of lines 162 and 166.\<close>

definition escalate :: "string \<Rightarrow> string" where
  "escalate overall = (if overall = ''pass'' then ''warning'' else ''fail'')"

text \<open>The variables that lines 150 to 170 assign for one invoice line.\<close>

record LineCalc =
  price_diff :: py_float
  qty_diff :: py_float
  amount_diff :: py_float
  match_status :: string

text \<open>
  Lines 150 to 170. The function takes the two matches and \<open>overall\<close>, the value of
  \<^verbatim>\<open>overall_status\<close> before the line, and returns the variables of the line and the
  value of \<^verbatim>\<open>overall_status\<close> after the line.
\<close>

fun calculate_variances ::
  "Builtins \<Rightarrow> LineItem \<Rightarrow> LineItem option \<Rightarrow> LineItem option \<Rightarrow> string \<Rightarrow>
     py_error + (LineCalc \<times> string)" where
  "calculate_variances env inv_item (Some po_match) (Some gr_match) overall =
     (case price_diff_of env inv_item po_match of
        Inl e \<Rightarrow> Inl e
      | Inr pd \<Rightarrow>
         (case qty_diff_of env inv_item gr_match of
            Inl e \<Rightarrow> Inl e
          | Inr qd \<Rightarrow>
             (let ad = amount_diff_of env inv_item po_match gr_match;
                  (ms1, os1) = (if py_gt pd tolerance
                                then (''price_variance'', escalate overall)
                                else (''pass'', overall));
                  (ms2, os2) = (if py_gt qd tolerance
                                then (''quantity_variance'', escalate os1)
                                else (ms1, os1))
              in Inr (\<lparr>price_diff = pd, qty_diff = qd, amount_diff = ad, match_status = ms2\<rparr>,
                      os2))))"
| "calculate_variances env inv_item po_match gr_match overall =
     Inr (\<lparr>price_diff = Finite 0, qty_diff = Finite 0, amount_diff = Finite 0,
           match_status = ''no_match''\<rparr>,
          ''fail'')"

text \<open>The variables that live across the iterations of the loop of line 134.\<close>

record Locals =
  line_matches :: "LineMatch list"
  total_variance :: py_float
  price_variance :: py_float
  quantity_variance :: py_float
  overall_status :: string

text \<open>Lines 172 to 184.\<close>

definition line_match_dict ::
  "Builtins \<Rightarrow> LineItem \<Rightarrow> LineItem option \<Rightarrow> LineItem option \<Rightarrow> LineCalc \<Rightarrow> LineMatch" where
  "line_match_dict env inv_item po_match gr_match c =
     \<lparr>LineMatch.description = LineItem.description inv_item,
      invoice_qty = quantity inv_item,
      invoice_price = unit_price inv_item,
      invoice_amount = amount inv_item,
      po_qty = (case po_match of Some p \<Rightarrow> quantity p | None \<Rightarrow> Finite 0),
      po_price = (case po_match of Some p \<Rightarrow> unit_price p | None \<Rightarrow> Finite 0),
      gr_qty = (case gr_match of Some g \<Rightarrow> quantity g | None \<Rightarrow> Finite 0),
      price_variance_pct = py_mul env (price_diff c) (Finite 100),
      quantity_variance_pct = py_mul env (qty_diff c) (Finite 100),
      amount_variance = amount_diff c,
      LineMatch.status = match_status c\<rparr>"

text \<open>One iteration of the loop, lines 135 to 188.\<close>

definition loop_body ::
  "Builtins \<Rightarrow> PurchaseOrder \<Rightarrow> GoodsReceipt \<Rightarrow> Locals \<Rightarrow> LineItem \<Rightarrow> py_error + Locals" where
  "loop_body env po gr st inv_item =
     (let po_match = find_match (str_lower env) (PurchaseOrder.line_items po) inv_item;
          gr_match = find_match (str_lower env) (GoodsReceipt.line_items gr) inv_item
      in case calculate_variances env inv_item po_match gr_match (Locals.overall_status st) of
           Inl e \<Rightarrow> Inl e
         | Inr (c, os) \<Rightarrow>
            Inr \<lparr>line_matches = line_matches st @ [line_match_dict env inv_item po_match gr_match c],
                 total_variance = float_add env (Locals.total_variance st) (amount_diff c),
                 price_variance = float_add env (Locals.price_variance st) (price_diff c),
                 quantity_variance = float_add env (Locals.quantity_variance st) (qty_diff c),
                 overall_status = os\<rparr>)"

text \<open>The loop of line 134; an exception in an iteration ends it.\<close>

fun match_lines ::
  "Builtins \<Rightarrow> PurchaseOrder \<Rightarrow> GoodsReceipt \<Rightarrow> Locals \<Rightarrow> LineItem list \<Rightarrow> py_error + Locals" where
  "match_lines env po gr st [] = Inr st"
| "match_lines env po gr st (inv_item # rest) =
     (case loop_body env po gr st inv_item of
        Inl e \<Rightarrow> Inl e
      | Inr st' \<Rightarrow> match_lines env po gr st' rest)"

text \<open>Lines 125 to 129.\<close>

definition initial_locals :: Locals where
  "initial_locals =
     \<lparr>line_matches = [], total_variance = Finite 0, price_variance = Finite 0,
      quantity_variance = Finite 0, overall_status = ''pass''\<rparr>"

text \<open>Lines 121 to 202.\<close>

definition perform_three_way_match ::
  "Builtins \<Rightarrow> Invoice \<Rightarrow> PurchaseOrder \<Rightarrow> GoodsReceipt \<Rightarrow> py_error + VerificationResult" where
  "perform_three_way_match env invoice po gr =
     (let verification_id = uuid4_str env in
      case match_lines env po gr initial_locals (Invoice.line_items invoice) of
        Inl e \<Rightarrow> Inl e
      | Inr st \<Rightarrow>
         (case required_str (Invoice.id' invoice) of
            Inl e \<Rightarrow> Inl e
          | Inr inv_id \<Rightarrow>
             (case required_str (PurchaseOrder.id' po) of
                Inl e \<Rightarrow> Inl e
              | Inr p_id \<Rightarrow>
                 (case required_str (GoodsReceipt.id' gr) of
                    Inl e \<Rightarrow> Inl e
                  | Inr g_id \<Rightarrow>
                     Inr \<lparr>VerificationResult.id' = Some verification_id,
                          invoice_id = inv_id,
                          po_id = p_id,
                          gr_id = g_id,
                          verification_date = now_verification_date env,
                          overall_status = Locals.overall_status st,
                          line_item_matches = line_matches st,
                          total_variance = Locals.total_variance st,
                          price_variance = Locals.price_variance st,
                          quantity_variance = Locals.quantity_variance st,
                          created_at = Some (now_created_at env)\<rparr>))))"

subsection \<open>Observations on one invoice line\<close>

text \<open>
  The claims speak of the matches, the variables and the status of one invoice line. They are read
  off the functions above: the two matches of the line, the variables that
  \<open>calculate_variances\<close> returns for it, and the overall status after it.
\<close>

definition po_match_of :: "Builtins \<Rightarrow> PurchaseOrder \<Rightarrow> LineItem \<Rightarrow> LineItem option" where
  "po_match_of env po inv_item = find_match (str_lower env) (PurchaseOrder.line_items po) inv_item"

definition gr_match_of :: "Builtins \<Rightarrow> GoodsReceipt \<Rightarrow> LineItem \<Rightarrow> LineItem option" where
  "gr_match_of env gr inv_item = find_match (str_lower env) (GoodsReceipt.line_items gr) inv_item"

definition line_calc :: "Builtins \<Rightarrow> PurchaseOrder \<Rightarrow> GoodsReceipt \<Rightarrow> LineItem \<Rightarrow> LineCalc" where
  "line_calc env po gr inv_item =
     fst (projr (calculate_variances env inv_item (po_match_of env po inv_item)
                   (gr_match_of env gr inv_item) ''pass''))"

definition status_after :: "Builtins \<Rightarrow> PurchaseOrder \<Rightarrow> GoodsReceipt \<Rightarrow> string \<Rightarrow> LineItem \<Rightarrow> string" where
  "status_after env po gr overall inv_item =
     snd (projr (calculate_variances env inv_item (po_match_of env po inv_item)
                   (gr_match_of env gr inv_item) overall))"

definition no_match_line :: "Builtins \<Rightarrow> PurchaseOrder \<Rightarrow> GoodsReceipt \<Rightarrow> LineItem \<Rightarrow> bool" where
  "no_match_line env po gr inv_item \<longleftrightarrow>
     po_match_of env po inv_item = None \<or> gr_match_of env gr inv_item = None"

definition trips_price :: "Builtins \<Rightarrow> PurchaseOrder \<Rightarrow> GoodsReceipt \<Rightarrow> LineItem \<Rightarrow> bool" where
  "trips_price env po gr inv_item \<longleftrightarrow> py_gt (price_diff (line_calc env po gr inv_item)) tolerance"

definition trips_qty :: "Builtins \<Rightarrow> PurchaseOrder \<Rightarrow> GoodsReceipt \<Rightarrow> LineItem \<Rightarrow> bool" where
  "trips_qty env po gr inv_item \<longleftrightarrow> py_gt (qty_diff (line_calc env po gr inv_item)) tolerance"

definition variant_line :: "Builtins \<Rightarrow> PurchaseOrder \<Rightarrow> GoodsReceipt \<Rightarrow> LineItem \<Rightarrow> bool" where
  "variant_line env po gr inv_item \<longleftrightarrow>
     trips_price env po gr inv_item \<or> trips_qty env po gr inv_item"

definition tripped_checks :: "Builtins \<Rightarrow> PurchaseOrder \<Rightarrow> GoodsReceipt \<Rightarrow> LineItem \<Rightarrow> nat" where
  "tripped_checks env po gr inv_item =
     of_bool (trips_price env po gr inv_item) + of_bool (trips_qty env po gr inv_item)"

definition line_record :: "Builtins \<Rightarrow> PurchaseOrder \<Rightarrow> GoodsReceipt \<Rightarrow> LineItem \<Rightarrow> LineMatch" where
  "line_record env po gr inv_item =
     line_match_dict env inv_item (po_match_of env po inv_item) (gr_match_of env gr inv_item)
       (line_calc env po gr inv_item)"

text \<open>The precondition under which the constructor of the result accepts the three identifiers.\<close>

definition ids_present :: "Invoice \<Rightarrow> PurchaseOrder \<Rightarrow> GoodsReceipt \<Rightarrow> bool" where
  "ids_present invoice po gr \<longleftrightarrow>
     Invoice.id' invoice \<noteq> None \<and> PurchaseOrder.id' po \<noteq> None \<and> GoodsReceipt.id' gr \<noteq> None"

subsection \<open>Concrete documents\<close>

text \<open>
  Documents in the shape of those of \<^verbatim>\<open>backend_test.py\<close>, with the line items as a
  parameter and the identifiers that the endpoints would have assigned. The numbers of the line
  items used below are chosen so that every difference, product, quotient and sum of a run is a
  double, and the run is the one of the program.
\<close>

definition test_env :: Builtins where
  "test_env =
     \<lparr>str_lower = ascii_lower,
      float_add = exact (+), float_sub = exact (-), float_mul = exact (*),
      float_truediv = exact (/),
      uuid4_str = ''v-1'',
      now_verification_date = ''2024-01-21T10:00:00'', now_created_at = ''2024-01-21T10:00:01''\<rparr>"

definition item :: "string \<Rightarrow> real \<Rightarrow> real \<Rightarrow> real \<Rightarrow> LineItem" where
  "item d q u a =
     \<lparr>LineItem.description = d, quantity = Finite q, unit_price = Finite u, amount = Finite a\<rparr>"

definition test_invoice :: "LineItem list \<Rightarrow> Invoice" where
  "test_invoice items =
     \<lparr>Invoice.id' = Some ''inv-1'', invoice_number = ''INV-001'', vendor_name = ''ABC Corp'',
      invoice_date = ''2024-01-15'', total_amount = Finite 10000, line_items = items,
      status = Some ''pending'', created_at = Some ''2024-01-15T09:00:00''\<rparr>"

definition test_po :: "LineItem list \<Rightarrow> PurchaseOrder" where
  "test_po items =
     \<lparr>PurchaseOrder.id' = Some ''po-1'', po_number = ''PO-001'', vendor_name = ''ABC Corp'',
      po_date = ''2024-01-10'', total_amount = Finite 10000, line_items = items,
      status = Some ''open'', created_at = Some ''2024-01-10T09:00:00''\<rparr>"

definition test_gr :: "LineItem list \<Rightarrow> GoodsReceipt" where
  "test_gr items =
     \<lparr>GoodsReceipt.id' = Some ''gr-1'', gr_number = ''GR-001'', po_number = ''PO-001'',
      vendor_name = ''ABC Corp'', receipt_date = ''2024-01-20'', line_items = items,
      created_at = Some ''2024-01-20T09:00:00''\<rparr>"

subsection \<open>Facts of the comparisons\<close>

lemma py_gt_zero_nonzero: "py_gt b (Finite 0) \<Longrightarrow> b \<noteq> Finite 0"
  by (cases b) simp_all

lemma py_le_not_gt: "py_le x y \<Longrightarrow> \<not> py_gt x y"
  by (cases x; cases y) simp_all

subsection \<open>The loop in closed form\<close>

lemma price_diff_of_Inr:
  "price_diff_of env inv_item po_match =
     Inr (if py_gt (unit_price po_match) (Finite 0)
          then float_truediv env (py_abs (float_sub env (unit_price inv_item) (unit_price po_match)))
                 (unit_price po_match)
          else Finite 0)"
  by (simp add: price_diff_of_def py_div_def py_gt_zero_nonzero)

lemma qty_diff_of_Inr:
  "qty_diff_of env inv_item gr_match =
     Inr (if py_gt (quantity gr_match) (Finite 0)
          then float_truediv env (py_abs (float_sub env (quantity inv_item) (quantity gr_match)))
                 (quantity gr_match)
          else Finite 0)"
  by (simp add: qty_diff_of_def py_div_def py_gt_zero_nonzero)

lemma calculate_variances_Inr:
  "\<exists>c os. calculate_variances env inv_item pm gm overall = Inr (c, os)"
  by (cases pm; cases gm) (simp_all add: price_diff_of_Inr qty_diff_of_Inr Let_def split: prod.splits)

lemma calculate_variances_calc_indep:
  "fst (projr (calculate_variances env inv_item pm gm overall)) =
   fst (projr (calculate_variances env inv_item pm gm overall'))"
  by (cases pm; cases gm) (simp_all add: price_diff_of_Inr qty_diff_of_Inr Let_def split: prod.splits)

lemma calculate_variances_eq:
  "calculate_variances env inv_item (po_match_of env po inv_item) (gr_match_of env gr inv_item) overall =
     Inr (line_calc env po gr inv_item, status_after env po gr overall inv_item)"
proof -
  obtain c os where *: "calculate_variances env inv_item (po_match_of env po inv_item)
      (gr_match_of env gr inv_item) overall = Inr (c, os)"
    using calculate_variances_Inr by blast
  have "line_calc env po gr inv_item = c"
    unfolding line_calc_def
    using calculate_variances_calc_indep [of env inv_item "po_match_of env po inv_item"
        "gr_match_of env gr inv_item" "''pass''" overall] * by simp
  with * show ?thesis by (simp add: status_after_def)
qed

lemma line_calc_no_match:
  assumes "no_match_line env po gr inv_item"
  shows "line_calc env po gr inv_item =
           \<lparr>price_diff = Finite 0, qty_diff = Finite 0, amount_diff = Finite 0,
            match_status = ''no_match''\<rparr>"
    and "status_after env po gr overall inv_item = ''fail''"
  using assms
  by (cases "po_match_of env po inv_item"; cases "gr_match_of env gr inv_item";
      simp add: no_match_line_def line_calc_def status_after_def)+

lemma line_calc_matched:
  assumes "po_match_of env po inv_item = Some p" and "gr_match_of env gr inv_item = Some g"
  shows "price_diff_of env inv_item p = Inr (price_diff (line_calc env po gr inv_item))"
    and "qty_diff_of env inv_item g = Inr (qty_diff (line_calc env po gr inv_item))"
    and "amount_diff (line_calc env po gr inv_item) = amount_diff_of env inv_item p g"
    and "match_status (line_calc env po gr inv_item) =
           (if trips_qty env po gr inv_item then ''quantity_variance''
            else if trips_price env po gr inv_item then ''price_variance'' else ''pass'')"
    and "status_after env po gr overall inv_item =
           (escalate ^^ tripped_checks env po gr inv_item) overall"
  using assms
  by (simp_all add: line_calc_def status_after_def trips_qty_def trips_price_def tripped_checks_def
      price_diff_of_Inr qty_diff_of_Inr Let_def)

lemma escalate_fail: "(escalate ^^ n) ''fail'' = ''fail''"
  by (induction n) (simp_all add: escalate_def)

lemma escalate_pass:
  "(escalate ^^ n) ''pass'' = (if n = 0 then ''pass'' else if n = 1 then ''warning'' else ''fail'')"
proof (induction n)
  case 0
  show ?case by simp
next
  case (Suc n)
  then show ?case by (simp add: escalate_def)
qed

lemma status_after_eq:
  "status_after env po gr overall inv_item =
     (if no_match_line env po gr inv_item then ''fail''
      else (escalate ^^ tripped_checks env po gr inv_item) overall)"
proof (cases "no_match_line env po gr inv_item")
  case True
  then show ?thesis by (simp add: line_calc_no_match)
next
  case False
  then obtain p g where "po_match_of env po inv_item = Some p" "gr_match_of env gr inv_item = Some g"
    by (auto simp: no_match_line_def)
  with False show ?thesis by (simp add: line_calc_matched)
qed

lemma escalate_funpow_funpow:
  "(escalate ^^ m) ((escalate ^^ n) overall) = (escalate ^^ (n + m)) overall"
  by (simp add: funpow_add add.commute [of n m])

lemma foldl_status_after:
  "foldl (status_after env po gr) overall its =
     (if list_ex (no_match_line env po gr) its then ''fail''
      else (escalate ^^ sum_list (map (tripped_checks env po gr) its)) overall)"
proof (induction its arbitrary: overall)
  case Nil
  show ?case by simp
next
  case (Cons it its)
  have step: "foldl (status_after env po gr) overall (it # its) =
      (if list_ex (no_match_line env po gr) its then ''fail''
       else (escalate ^^ sum_list (map (tripped_checks env po gr) its))
              (status_after env po gr overall it))"
    by (simp add: Cons.IH)
  show ?case
  proof (cases "no_match_line env po gr it")
    case True
    then have "status_after env po gr overall it = ''fail''"
      by (simp add: line_calc_no_match)
    with True step show ?thesis by (simp add: escalate_fail)
  next
    case False
    then have "status_after env po gr overall it =
        (escalate ^^ tripped_checks env po gr it) overall"
      using status_after_eq [of env po gr overall it] by simp
    with False step show ?thesis by (simp add: escalate_funpow_funpow)
  qed
qed

lemma loop_body_eq:
  "loop_body env po gr st inv_item =
     Inr \<lparr>line_matches = line_matches st @ [line_record env po gr inv_item],
          total_variance =
            float_add env (Locals.total_variance st) (amount_diff (line_calc env po gr inv_item)),
          price_variance =
            float_add env (Locals.price_variance st) (price_diff (line_calc env po gr inv_item)),
          quantity_variance =
            float_add env (Locals.quantity_variance st) (qty_diff (line_calc env po gr inv_item)),
          overall_status = status_after env po gr (Locals.overall_status st) inv_item\<rparr>"
  using calculate_variances_eq [of env inv_item po gr "Locals.overall_status st"]
  by (simp add: loop_body_def line_record_def po_match_of_def gr_match_of_def)

lemma match_lines_eq:
  "match_lines env po gr st its =
     Inr \<lparr>line_matches = line_matches st @ map (line_record env po gr) its,
          total_variance =
            foldl (float_add env) (Locals.total_variance st)
              (map (\<lambda>it. amount_diff (line_calc env po gr it)) its),
          price_variance =
            foldl (float_add env) (Locals.price_variance st)
              (map (\<lambda>it. price_diff (line_calc env po gr it)) its),
          quantity_variance =
            foldl (float_add env) (Locals.quantity_variance st)
              (map (\<lambda>it. qty_diff (line_calc env po gr it)) its),
          overall_status = foldl (status_after env po gr) (Locals.overall_status st) its\<rparr>"
proof (induction its arbitrary: st)
  case Nil
  show ?case by simp
next
  case (Cons it its)
  show ?case by (simp add: loop_body_eq Cons.IH)
qed

lemma perform_eq:
  assumes "Invoice.id' invoice = Some i" and "PurchaseOrder.id' po = Some p"
    and "GoodsReceipt.id' gr = Some g"
  shows "perform_three_way_match env invoice po gr =
     Inr \<lparr>VerificationResult.id' = Some (uuid4_str env),
          invoice_id = i, po_id = p, gr_id = g,
          verification_date = now_verification_date env,
          overall_status = foldl (status_after env po gr) ''pass'' (Invoice.line_items invoice),
          line_item_matches = map (line_record env po gr) (Invoice.line_items invoice),
          total_variance =
            foldl (float_add env) (Finite 0)
              (map (\<lambda>it. amount_diff (line_calc env po gr it)) (Invoice.line_items invoice)),
          price_variance =
            foldl (float_add env) (Finite 0)
              (map (\<lambda>it. price_diff (line_calc env po gr it)) (Invoice.line_items invoice)),
          quantity_variance =
            foldl (float_add env) (Finite 0)
              (map (\<lambda>it. qty_diff (line_calc env po gr it)) (Invoice.line_items invoice)),
          created_at = Some (now_created_at env)\<rparr>"
  using assms
  by (simp add: perform_three_way_match_def match_lines_eq initial_locals_def required_str_def)

lemma find_match_find:
  "find_match lower items inv_item =
     List.find (\<lambda>x. lower (LineItem.description x) = lower (LineItem.description inv_item)) items"
  by (induction items) simp_all

lemma find_match_None_iff:
  "find_match lower items inv_item = None \<longleftrightarrow>
     (\<forall>x\<in>set items. lower (LineItem.description x) \<noteq> lower (LineItem.description inv_item))"
  by (auto simp: find_match_find find_None_iff)

lemma perform_result:
  assumes "ids_present invoice po gr"
  shows "perform_three_way_match env invoice po gr =
     Inr \<lparr>VerificationResult.id' = Some (uuid4_str env),
          invoice_id = the (Invoice.id' invoice),
          po_id = the (PurchaseOrder.id' po),
          gr_id = the (GoodsReceipt.id' gr),
          verification_date = now_verification_date env,
          overall_status = foldl (status_after env po gr) ''pass'' (Invoice.line_items invoice),
          line_item_matches = map (line_record env po gr) (Invoice.line_items invoice),
          total_variance =
            foldl (float_add env) (Finite 0)
              (map (\<lambda>it. amount_diff (line_calc env po gr it)) (Invoice.line_items invoice)),
          price_variance =
            foldl (float_add env) (Finite 0)
              (map (\<lambda>it. price_diff (line_calc env po gr it)) (Invoice.line_items invoice)),
          quantity_variance =
            foldl (float_add env) (Finite 0)
              (map (\<lambda>it. qty_diff (line_calc env po gr it)) (Invoice.line_items invoice)),
          created_at = Some (now_created_at env)\<rparr>"
proof -
  from assms obtain i p g where "Invoice.id' invoice = Some i" "PurchaseOrder.id' po = Some p"
    "GoodsReceipt.id' gr = Some g"
    by (auto simp: ids_present_def)
  then show ?thesis by (simp add: perform_eq)
qed

lemma perform_no_arithmetic_error:
  "perform_three_way_match env invoice po gr \<noteq> Inl ZeroDivisionError"
  by (simp add: perform_three_way_match_def match_lines_eq required_str_def split: option.splits)

lemma variant_le_checks:
  "length (filter (variant_line env po gr) its) \<le> sum_list (map (tripped_checks env po gr) its)"
  by (induction its) (auto simp: variant_line_def tripped_checks_def)

lemma no_variant_no_checks:
  assumes "filter (variant_line env po gr) its = []"
  shows "sum_list (map (tripped_checks env po gr) its) = 0"
proof -
  from assms have "\<forall>it\<in>set its. \<not> variant_line env po gr it"
    by (simp add: filter_empty_conv)
  then have "\<forall>it\<in>set its. tripped_checks env po gr it = 0"
    by (simp add: variant_line_def tripped_checks_def)
  then show ?thesis by simp
qed

lemma test_ids: "ids_present (test_invoice a) (test_po b) (test_gr c)"
  by (simp add: ids_present_def test_invoice_def test_po_def test_gr_def)

lemma perform_line:
  assumes "ids_present invoice po gr" and "i < length (Invoice.line_items invoice)"
  shows "\<exists>r. perform_three_way_match env invoice po gr = Inr r \<and>
           line_item_matches r ! i = line_record env po gr (Invoice.line_items invoice ! i)"
  unfolding perform_result [OF assms(1)] using assms(2) by simp

lemma matched_line_record:
  assumes "find_match (str_lower env) (PurchaseOrder.line_items po) inv_item = Some p"
    and "find_match (str_lower env) (GoodsReceipt.line_items gr) inv_item = Some g"
  shows "amount_variance (line_record env po gr inv_item) = amount_diff_of env inv_item p g"
    and "price_diff_of env inv_item p = Inr pd \<Longrightarrow> qty_diff_of env inv_item g = Inr qd \<Longrightarrow>
           LineMatch.status (line_record env po gr inv_item) =
             (if py_gt qd tolerance then ''quantity_variance''
              else if py_gt pd tolerance then ''price_variance'' else ''pass'')"
proof -
  have p: "po_match_of env po inv_item = Some p" and g: "gr_match_of env gr inv_item = Some g"
    using assms by (simp_all add: po_match_of_def gr_match_of_def)
  note m = line_calc_matched [OF p g]
  show "amount_variance (line_record env po gr inv_item) = amount_diff_of env inv_item p g"
    using m(3) by (simp add: line_record_def line_match_dict_def)
  show "price_diff_of env inv_item p = Inr pd \<Longrightarrow> qty_diff_of env inv_item g = Inr qd \<Longrightarrow>
           LineMatch.status (line_record env po gr inv_item) =
             (if py_gt qd tolerance then ''quantity_variance''
              else if py_gt pd tolerance then ''price_variance'' else ''pass'')"
    using m(1) m(2) m(4)
    by (simp add: line_record_def line_match_dict_def trips_price_def trips_qty_def)
qed

subsection \<open>Running the model on concrete documents\<close>

lemmas run_defs =
  perform_three_way_match_def initial_locals_def loop_body_def line_match_dict_def
  price_diff_of_def qty_diff_of_def amount_diff_of_def py_div_def py_mul_def tolerance_def
  escalate_def required_str_def ascii_lower_def ascii_lower_char_def exact_def
  test_env_def test_invoice_def test_po_def test_gr_def item_def ids_present_def
  po_match_of_def gr_match_of_def line_calc_def status_after_def no_match_line_def
  trips_price_def trips_qty_def variant_line_def tripped_checks_def line_record_def

section \<open>The claims\<close>

text \<open>
  The theorems about the result of \<open>perform_three_way_match\<close> are stated for documents whose
  identifiers are present, which is when the function returns a result, and each of them proves
  that it does. The diffs, the comparisons with the tolerance and the sums are those of the
  floats: a line trips a check when the float that the program computed exceeds the double 0.05.
\<close>

subsection \<open>C1: escalation of the overall status\<close>

text \<open>
  C1, as the code has it. The overall status is escalated once for each tolerance check that
  trips, not once for each line: a line that trips both the price and the quantity tolerance
  escalates twice. Hence, for documents with identifiers: with no variant line and no no-match
  line the status is "pass"; with exactly one variant line that trips exactly one of its two
  checks, and no no-match line, it is "warning"; with exactly one variant line that trips both of
  its checks it is "fail"; with two or more variant lines it is "fail".
\<close>

theorem overall_status_escalation:
  assumes "ids_present invoice po gr"
  shows "\<exists>r. perform_three_way_match env invoice po gr = Inr r \<and>
    (let its = Invoice.line_items invoice;
         variant = length (filter (variant_line env po gr) its);
         checks = sum_list (map (tripped_checks env po gr) its);
         unmatched = list_ex (no_match_line env po gr) its
     in (\<not> unmatched \<and> variant = 0 \<longrightarrow> VerificationResult.overall_status r = ''pass'') \<and>
        (\<not> unmatched \<and> variant = 1 \<and> checks = 1 \<longrightarrow>
           VerificationResult.overall_status r = ''warning'') \<and>
        (variant = 1 \<and> checks = 2 \<longrightarrow> VerificationResult.overall_status r = ''fail'') \<and>
        (2 \<le> variant \<longrightarrow> VerificationResult.overall_status r = ''fail''))"
proof -
  define its where "its = Invoice.line_items invoice"
  define variant where "variant = length (filter (variant_line env po gr) its)"
  define checks where "checks = sum_list (map (tripped_checks env po gr) its)"
  define unmatched where "unmatched = list_ex (no_match_line env po gr) its"
  define final where "final = foldl (status_after env po gr) ''pass'' its"
  have final: "final = (if unmatched then ''fail''
      else if checks = 0 then ''pass'' else if checks = 1 then ''warning'' else ''fail'')"
    unfolding final_def unmatched_def checks_def by (simp only: foldl_status_after escalate_pass)
  have le: "variant \<le> checks"
    unfolding variant_def checks_def by (rule variant_le_checks)
  have zero: "checks = 0" if "variant = 0"
    using that unfolding variant_def checks_def by (simp only: length_0_conv no_variant_no_checks)
  have a: "\<not> unmatched \<and> variant = 0 \<longrightarrow> final = ''pass''"
    using final zero by simp
  have b: "\<not> unmatched \<and> variant = 1 \<and> checks = 1 \<longrightarrow> final = ''warning''"
    using final by simp
  have c: "variant = 1 \<and> checks = 2 \<longrightarrow> final = ''fail''"
    using final by simp
  have d: "2 \<le> variant \<longrightarrow> final = ''fail''"
    using final le by simp
  have "perform_three_way_match env invoice po gr = Inr r \<Longrightarrow>
      VerificationResult.overall_status r = final" for r
    unfolding perform_result [OF assms] final_def its_def by auto
  moreover have "\<exists>r. perform_three_way_match env invoice po gr = Inr r"
    unfolding perform_result [OF assms] by simp
  ultimately show ?thesis
    using a b c d unfolding Let_def its_def [symmetric] variant_def [symmetric]
      checks_def [symmetric] unmatched_def [symmetric]
    by blast
qed

text \<open>
  C1 as it is written fails on one invoice line that trips both tolerances (unit price 1200
  against 800, a price_diff of 0.5; quantity 10 against 8, a qty_diff of 0.25): exactly one line
  is a variant line, none is a no-match line, and the overall status is "fail", not "warning".
\<close>

theorem one_line_tripping_both_checks_fails:
  "length (filter (variant_line test_env (test_po [item ''Laptops'' 10 800 8000])
             (test_gr [item ''Laptops'' 8 800 6400]))
          (Invoice.line_items (test_invoice [item ''Laptops'' 10 1200 12000]))) = 1 \<and>
   \<not> list_ex (no_match_line test_env (test_po [item ''Laptops'' 10 800 8000])
             (test_gr [item ''Laptops'' 8 800 6400]))
          (Invoice.line_items (test_invoice [item ''Laptops'' 10 1200 12000])) \<and>
   map_sum id VerificationResult.overall_status
     (perform_three_way_match test_env (test_invoice [item ''Laptops'' 10 1200 12000])
        (test_po [item ''Laptops'' 10 800 8000]) (test_gr [item ''Laptops'' 8 800 6400]))
     = Inr ''fail'' \<and>
   map_sum id VerificationResult.overall_status
     (perform_three_way_match test_env (test_invoice [item ''Laptops'' 10 1200 12000])
        (test_po [item ''Laptops'' 10 800 8000]) (test_gr [item ''Laptops'' 8 800 6400]))
     \<noteq> Inr ''warning''"
  by (simp add: run_defs)

text \<open>
  The escalation rule on one line whose quantity check alone trips (quantity 10 against 8:
  "warning"), and with a second line whose price check trips (unit price 100 against 200:
  "fail").
\<close>

theorem overall_status_escalation_witness:
  "ids_present (test_invoice [item ''Laptops'' 10 1000 10000])
     (test_po [item ''Laptops'' 10 1000 10000]) (test_gr [item ''Laptops'' 8 1000 8000]) \<and>
   (\<exists>r. perform_three_way_match test_env (test_invoice [item ''Laptops'' 10 1000 10000])
          (test_po [item ''Laptops'' 10 1000 10000]) (test_gr [item ''Laptops'' 8 1000 8000]) = Inr r \<and>
        VerificationResult.overall_status r = ''warning'') \<and>
   (\<exists>r. perform_three_way_match test_env
          (test_invoice [item ''Laptops'' 10 1000 10000, item ''Mice'' 5 100 500])
          (test_po [item ''Laptops'' 10 1000 10000, item ''Mice'' 5 200 1000])
          (test_gr [item ''Laptops'' 8 1000 8000, item ''Mice'' 5 200 1000]) = Inr r \<and>
        VerificationResult.overall_status r = ''fail'')"
proof -
  let ?inv = "test_invoice [item ''Laptops'' 10 1000 10000]"
  let ?po = "test_po [item ''Laptops'' 10 1000 10000]"
  let ?gr = "test_gr [item ''Laptops'' 8 1000 8000]"
  let ?inv2 = "test_invoice [item ''Laptops'' 10 1000 10000, item ''Mice'' 5 100 500]"
  let ?po2 = "test_po [item ''Laptops'' 10 1000 10000, item ''Mice'' 5 200 1000]"
  let ?gr2 = "test_gr [item ''Laptops'' 8 1000 8000, item ''Mice'' 5 200 1000]"
  have one: "\<not> list_ex (no_match_line test_env ?po ?gr) (Invoice.line_items ?inv) \<and>
      length (filter (variant_line test_env ?po ?gr) (Invoice.line_items ?inv)) = 1 \<and>
      sum_list (map (tripped_checks test_env ?po ?gr) (Invoice.line_items ?inv)) = 1"
    by (simp add: run_defs)
  have two: "2 \<le> length (filter (variant_line test_env ?po2 ?gr2) (Invoice.line_items ?inv2))"
    by (simp add: run_defs)
  have "\<exists>r. perform_three_way_match test_env ?inv ?po ?gr = Inr r \<and>
      VerificationResult.overall_status r = ''warning''"
    using overall_status_escalation [OF test_ids, where env = test_env] one
    unfolding Let_def by blast
  moreover have "\<exists>r. perform_three_way_match test_env ?inv2 ?po2 ?gr2 = Inr r \<and>
      VerificationResult.overall_status r = ''fail''"
    using overall_status_escalation [OF test_ids, where env = test_env] two
    unfolding Let_def by blast
  ultimately show ?thesis using test_ids by blast
qed

subsection \<open>C2: a line without a match\<close>

text \<open>
  C2. When the identifiers are present and the \<open>i\<close>-th invoice line has no purchase-order
  line, or no goods-receipt line, with the same lowered description, the function returns a
  result whose \<open>i\<close>-th match record has status "no_match" and the three variance figures 0,
  and whose overall status is "fail", whatever the other lines are.
\<close>

theorem no_match_forces_fail:
  assumes "ids_present invoice po gr"
    and "i < length (Invoice.line_items invoice)"
    and "(\<forall>p\<in>set (PurchaseOrder.line_items po).
            str_lower env (LineItem.description p) \<noteq>
            str_lower env (LineItem.description (Invoice.line_items invoice ! i))) \<or>
         (\<forall>g\<in>set (GoodsReceipt.line_items gr).
            str_lower env (LineItem.description g) \<noteq>
            str_lower env (LineItem.description (Invoice.line_items invoice ! i)))"
  shows "\<exists>r. perform_three_way_match env invoice po gr = Inr r \<and>
           LineMatch.status (line_item_matches r ! i) = ''no_match'' \<and>
           price_variance_pct (line_item_matches r ! i) = Finite 0 \<and>
           quantity_variance_pct (line_item_matches r ! i) = Finite 0 \<and>
           amount_variance (line_item_matches r ! i) = Finite 0 \<and>
           VerificationResult.overall_status r = ''fail''"
proof -
  let ?it = "Invoice.line_items invoice ! i"
  have nm: "no_match_line env po gr ?it"
    using assms(3)
    by (simp add: no_match_line_def po_match_of_def gr_match_of_def find_match_None_iff)
  have "?it \<in> set (Invoice.line_items invoice)"
    using assms(2) by simp
  with nm have ex: "list_ex (no_match_line env po gr) (Invoice.line_items invoice)"
    by (auto simp: list_ex_iff)
  have rec: "line_record env po gr ?it =
      line_match_dict env ?it (po_match_of env po ?it) (gr_match_of env gr ?it)
        \<lparr>price_diff = Finite 0, qty_diff = Finite 0, amount_diff = Finite 0,
         match_status = ''no_match''\<rparr>"
    by (simp add: line_record_def line_calc_no_match [OF nm])
  show ?thesis
    unfolding perform_result [OF assms(1)]
    using assms(2) ex by (simp add: foldl_status_after rec line_match_dict_def py_mul_def)
qed

text \<open>
  The invoice line "Monitors" against a purchase order and a goods receipt that only have
  "Laptops".
\<close>

theorem no_match_forces_fail_witness:
  "ids_present (test_invoice [item ''Monitors'' 2 300 600])
     (test_po [item ''Laptops'' 10 1000 10000]) (test_gr [item ''Laptops'' 8 1000 8000]) \<and>
   (0::nat) < length (Invoice.line_items (test_invoice [item ''Monitors'' 2 300 600])) \<and>
   find_match (str_lower test_env)
     (PurchaseOrder.line_items (test_po [item ''Laptops'' 10 1000 10000]))
     (Invoice.line_items (test_invoice [item ''Monitors'' 2 300 600]) ! 0) = None \<and>
   (\<exists>r. perform_three_way_match test_env (test_invoice [item ''Monitors'' 2 300 600])
          (test_po [item ''Laptops'' 10 1000 10000]) (test_gr [item ''Laptops'' 8 1000 8000]) = Inr r \<and>
        LineMatch.status (line_item_matches r ! 0) = ''no_match'' \<and>
        price_variance_pct (line_item_matches r ! 0) = Finite 0 \<and>
        quantity_variance_pct (line_item_matches r ! 0) = Finite 0 \<and>
        amount_variance (line_item_matches r ! 0) = Finite 0 \<and>
        VerificationResult.overall_status r = ''fail'')"
proof -
  let ?inv = "test_invoice [item ''Monitors'' 2 300 600]"
  let ?po = "test_po [item ''Laptops'' 10 1000 10000]"
  let ?gr = "test_gr [item ''Laptops'' 8 1000 8000]"
  have len: "(0::nat) < length (Invoice.line_items ?inv)"
    by (simp add: test_invoice_def)
  have absent: "\<forall>p\<in>set (PurchaseOrder.line_items ?po).
      str_lower test_env (LineItem.description p) \<noteq>
      str_lower test_env (LineItem.description (Invoice.line_items ?inv ! 0))"
    by (simp add: run_defs)
  from absent have either: "(\<forall>p\<in>set (PurchaseOrder.line_items ?po).
      str_lower test_env (LineItem.description p) \<noteq>
      str_lower test_env (LineItem.description (Invoice.line_items ?inv ! 0))) \<or>
     (\<forall>g\<in>set (GoodsReceipt.line_items ?gr).
      str_lower test_env (LineItem.description g) \<noteq>
      str_lower test_env (LineItem.description (Invoice.line_items ?inv ! 0)))"
    by (rule disjI1)
  have none: "find_match (str_lower test_env) (PurchaseOrder.line_items ?po)
      (Invoice.line_items ?inv ! 0) = None"
    by (simp add: run_defs)
  show ?thesis
    using test_ids len none no_match_forces_fail [OF test_ids len either] by blast
qed

subsection \<open>C3: no division by zero\<close>

text \<open>
  C3. For an invoice line with a purchase-order match and a goods-receipt match, the variance
  computation returns its variables and raises nothing; a matched purchase-order line with unit
  price 0 gives price_diff 0 and a matched goods-receipt line with quantity 0 gives qty_diff 0.
  Neither division raises \<open>ZeroDivisionError\<close>, and neither does the whole function. The
  other operations of the floats raise nothing in Python.
\<close>

theorem zero_division_safety:
  "(\<exists>c os. calculate_variances env inv_item (Some po_match) (Some gr_match) overall = Inr (c, os) \<and>
        (unit_price po_match = Finite 0 \<longrightarrow> price_diff c = Finite 0) \<and>
        (quantity gr_match = Finite 0 \<longrightarrow> qty_diff c = Finite 0)) \<and>
   (unit_price po_match = Finite 0 \<longrightarrow> price_diff_of env inv_item po_match = Inr (Finite 0)) \<and>
   (quantity gr_match = Finite 0 \<longrightarrow> qty_diff_of env inv_item gr_match = Inr (Finite 0)) \<and>
   price_diff_of env inv_item po_match \<noteq> Inl ZeroDivisionError \<and>
   qty_diff_of env inv_item gr_match \<noteq> Inl ZeroDivisionError \<and>
   perform_three_way_match env invoice po gr \<noteq> Inl ZeroDivisionError"
proof -
  have "\<exists>c os. calculate_variances env inv_item (Some po_match) (Some gr_match) overall = Inr (c, os) \<and>
        (unit_price po_match = Finite 0 \<longrightarrow> price_diff c = Finite 0) \<and>
        (quantity gr_match = Finite 0 \<longrightarrow> qty_diff c = Finite 0)"
    by (auto simp: price_diff_of_Inr qty_diff_of_Inr Let_def split: prod.splits)
  moreover have "unit_price po_match = Finite 0 \<longrightarrow>
      price_diff_of env inv_item po_match = Inr (Finite 0)"
    by (auto simp: price_diff_of_Inr)
  moreover have "quantity gr_match = Finite 0 \<longrightarrow>
      qty_diff_of env inv_item gr_match = Inr (Finite 0)"
    by (auto simp: qty_diff_of_Inr)
  moreover have "price_diff_of env inv_item po_match \<noteq> Inl ZeroDivisionError"
    by (simp add: price_diff_of_Inr)
  moreover have "qty_diff_of env inv_item gr_match \<noteq> Inl ZeroDivisionError"
    by (simp add: qty_diff_of_Inr)
  ultimately show ?thesis
    using perform_no_arithmetic_error by blast
qed

text \<open>A purchase-order line with unit price 0 and a goods-receipt line with quantity 0.\<close>

theorem zero_division_safety_witness:
  "unit_price (item ''Laptops'' 10 0 0) = Finite 0 \<and>
   price_diff_of test_env (item ''Laptops'' 10 1000 10000) (item ''Laptops'' 10 0 0) =
     Inr (Finite 0) \<and>
   quantity (item ''Laptops'' 0 1000 0) = Finite 0 \<and>
   qty_diff_of test_env (item ''Laptops'' 10 1000 10000) (item ''Laptops'' 0 1000 0) =
     Inr (Finite 0)"
proof -
  have p: "unit_price (item ''Laptops'' 10 0 0) = Finite 0"
    and q: "quantity (item ''Laptops'' 0 1000 0) = Finite 0"
    by (simp_all add: item_def)
  show ?thesis
    using p q
      zero_division_safety [where env = test_env and inv_item = "item ''Laptops'' 10 1000 10000"
        and po_match = "item ''Laptops'' 10 0 0" and gr_match = "item ''Laptops'' 0 1000 0"]
    by blast
qed

subsection \<open>C4: the status of a matched line\<close>

text \<open>
  C4. When the identifiers are present and the \<open>i\<close>-th invoice line has the purchase-order
  match \<open>p\<close> and the goods-receipt match \<open>g\<close>, with the price_diff \<open>pd\<close> and the qty_diff
  \<open>qd\<close> that lines 156 and 157 compute, the status of its match record is
  "quantity_variance" whenever \<open>qd\<close> exceeds the tolerance (also when \<open>pd\<close> does),
  "price_variance" when \<open>pd\<close> exceeds it and \<open>qd\<close> is at most the tolerance, and "pass" when
  both are at most the tolerance. The comparisons are Python's on floats, against the double
  0.05. The code tests "not greater", which is what decides the label also when a diff is NaN.
\<close>

theorem line_status_labels:
  assumes "ids_present invoice po gr"
    and "i < length (Invoice.line_items invoice)"
    and "find_match (str_lower env) (PurchaseOrder.line_items po) (Invoice.line_items invoice ! i) = Some p"
    and "find_match (str_lower env) (GoodsReceipt.line_items gr) (Invoice.line_items invoice ! i) = Some g"
    and "price_diff_of env (Invoice.line_items invoice ! i) p = Inr pd"
    and "qty_diff_of env (Invoice.line_items invoice ! i) g = Inr qd"
  shows "\<exists>r. perform_three_way_match env invoice po gr = Inr r \<and>
           (py_gt qd tolerance \<longrightarrow>
              LineMatch.status (line_item_matches r ! i) = ''quantity_variance'') \<and>
           (py_gt pd tolerance \<and> py_le qd tolerance \<longrightarrow>
              LineMatch.status (line_item_matches r ! i) = ''price_variance'') \<and>
           (py_le pd tolerance \<and> py_le qd tolerance \<longrightarrow>
              LineMatch.status (line_item_matches r ! i) = ''pass'') \<and>
           (py_gt pd tolerance \<and> \<not> py_gt qd tolerance \<longrightarrow>
              LineMatch.status (line_item_matches r ! i) = ''price_variance'') \<and>
           (\<not> py_gt pd tolerance \<and> \<not> py_gt qd tolerance \<longrightarrow>
              LineMatch.status (line_item_matches r ! i) = ''pass'')"
proof -
  from perform_line [OF assms(1,2)] obtain r where
    r: "perform_three_way_match env invoice po gr = Inr r" and
    rec: "line_item_matches r ! i = line_record env po gr (Invoice.line_items invoice ! i)"
    by blast
  have st: "LineMatch.status (line_item_matches r ! i) =
      (if py_gt qd tolerance then ''quantity_variance''
       else if py_gt pd tolerance then ''price_variance'' else ''pass'')"
    using matched_line_record(2) [OF assms(3,4,5,6)] by (simp add: rec)
  have "py_le qd tolerance \<Longrightarrow> \<not> py_gt qd tolerance"
    and "py_le pd tolerance \<Longrightarrow> \<not> py_gt pd tolerance"
    by (rule py_le_not_gt, assumption)+
  with st r show ?thesis by auto
qed

text \<open>
  A line whose unit price (1200 against 800, a price_diff of 0.5) and quantity (10 against 8, a
  qty_diff of 0.25) both exceed the tolerance: the quantity label wins.
\<close>

theorem line_status_labels_witness:
  "ids_present (test_invoice [item ''Laptops'' 10 1200 12000])
     (test_po [item ''Laptops'' 10 800 8000]) (test_gr [item ''Laptops'' 8 800 6400]) \<and>
   find_match (str_lower test_env)
     (PurchaseOrder.line_items (test_po [item ''Laptops'' 10 800 8000]))
     (Invoice.line_items (test_invoice [item ''Laptops'' 10 1200 12000]) ! 0) =
     Some (item ''Laptops'' 10 800 8000) \<and>
   find_match (str_lower test_env)
     (GoodsReceipt.line_items (test_gr [item ''Laptops'' 8 800 6400]))
     (Invoice.line_items (test_invoice [item ''Laptops'' 10 1200 12000]) ! 0) =
     Some (item ''Laptops'' 8 800 6400) \<and>
   price_diff_of test_env (Invoice.line_items (test_invoice [item ''Laptops'' 10 1200 12000]) ! 0)
     (item ''Laptops'' 10 800 8000) = Inr (Finite (1 / 2)) \<and>
   qty_diff_of test_env (Invoice.line_items (test_invoice [item ''Laptops'' 10 1200 12000]) ! 0)
     (item ''Laptops'' 8 800 6400) = Inr (Finite (1 / 4)) \<and>
   py_gt (Finite (1 / 2)) tolerance \<and>
   py_gt (Finite (1 / 4)) tolerance \<and>
   (\<exists>r. perform_three_way_match test_env (test_invoice [item ''Laptops'' 10 1200 12000])
          (test_po [item ''Laptops'' 10 800 8000]) (test_gr [item ''Laptops'' 8 800 6400]) = Inr r \<and>
        LineMatch.status (line_item_matches r ! 0) = ''quantity_variance'')"
proof -
  let ?inv = "test_invoice [item ''Laptops'' 10 1200 12000]"
  let ?po = "test_po [item ''Laptops'' 10 800 8000]"
  let ?gr = "test_gr [item ''Laptops'' 8 800 6400]"
  have len: "0 < length (Invoice.line_items ?inv)"
    by (simp add: test_invoice_def)
  have p: "find_match (str_lower test_env) (PurchaseOrder.line_items ?po)
      (Invoice.line_items ?inv ! 0) = Some (item ''Laptops'' 10 800 8000)"
    by (simp add: run_defs)
  have g: "find_match (str_lower test_env) (GoodsReceipt.line_items ?gr)
      (Invoice.line_items ?inv ! 0) = Some (item ''Laptops'' 8 800 6400)"
    by (simp add: run_defs)
  have pd: "price_diff_of test_env (Invoice.line_items ?inv ! 0) (item ''Laptops'' 10 800 8000) =
      Inr (Finite (1 / 2))"
    by (simp add: run_defs)
  have qd: "qty_diff_of test_env (Invoice.line_items ?inv ! 0) (item ''Laptops'' 8 800 6400) =
      Inr (Finite (1 / 4))"
    by (simp add: run_defs)
  have trips: "py_gt (Finite (1 / 2)) tolerance" "py_gt (Finite (1 / 4)) tolerance"
    by (simp_all add: tolerance_def)
  show ?thesis
    using test_ids p g pd qd trips line_status_labels [OF test_ids len p g pd qd] by blast
qed

subsection \<open>C5: the first match is the one used\<close>

text \<open>
  C5. \<open>find_match\<close> returns nothing exactly when no item of the list has the lowered
  description of the invoice line, and it returns \<open>m\<close> exactly when \<open>m\<close> is the item at the
  first position whose lowered description equals the lowered description of the invoice line.
  The strings are compared as they are after lowering, with no trimming. The match record of
  the \<open>i\<close>-th invoice line reports the quantity and price of that first purchase-order line and
  the quantity of that first goods-receipt line, and 0 where there is none.
\<close>

theorem first_match_semantics:
  "(find_match lower items inv_item = None \<longleftrightarrow>
      (\<forall>x\<in>set items. lower (LineItem.description x) \<noteq> lower (LineItem.description inv_item))) \<and>
   (find_match lower items inv_item = Some m \<longleftrightarrow>
      (\<exists>k<length items. items ! k = m \<and>
          lower (LineItem.description (items ! k)) = lower (LineItem.description inv_item) \<and>
          (\<forall>j<k. lower (LineItem.description (items ! j)) \<noteq> lower (LineItem.description inv_item)))) \<and>
   (ids_present invoice po gr \<and> i < length (Invoice.line_items invoice) \<longrightarrow>
      (\<exists>r. perform_three_way_match env invoice po gr = Inr r \<and>
         po_qty (line_item_matches r ! i) =
           (case find_match (str_lower env) (PurchaseOrder.line_items po) (Invoice.line_items invoice ! i)
            of Some p \<Rightarrow> quantity p | None \<Rightarrow> Finite 0) \<and>
         po_price (line_item_matches r ! i) =
           (case find_match (str_lower env) (PurchaseOrder.line_items po) (Invoice.line_items invoice ! i)
            of Some p \<Rightarrow> unit_price p | None \<Rightarrow> Finite 0) \<and>
         gr_qty (line_item_matches r ! i) =
           (case find_match (str_lower env) (GoodsReceipt.line_items gr) (Invoice.line_items invoice ! i)
            of Some g \<Rightarrow> quantity g | None \<Rightarrow> Finite 0)))"
proof (intro conjI impI)
  show "find_match lower items inv_item = None \<longleftrightarrow>
      (\<forall>x\<in>set items. lower (LineItem.description x) \<noteq> lower (LineItem.description inv_item))"
    by (rule find_match_None_iff)
next
  show "find_match lower items inv_item = Some m \<longleftrightarrow>
      (\<exists>k<length items. items ! k = m \<and>
          lower (LineItem.description (items ! k)) = lower (LineItem.description inv_item) \<and>
          (\<forall>j<k. lower (LineItem.description (items ! j)) \<noteq> lower (LineItem.description inv_item)))"
    unfolding find_match_find find_Some_iff by auto
next
  assume a: "ids_present invoice po gr \<and> i < length (Invoice.line_items invoice)"
  then have ids: "ids_present invoice po gr" and i: "i < length (Invoice.line_items invoice)"
    by simp_all
  from perform_line [OF ids i] obtain r where
    r: "perform_three_way_match env invoice po gr = Inr r" and
    rec: "line_item_matches r ! i = line_record env po gr (Invoice.line_items invoice ! i)"
    by blast
  show "\<exists>r. perform_three_way_match env invoice po gr = Inr r \<and>
         po_qty (line_item_matches r ! i) =
           (case find_match (str_lower env) (PurchaseOrder.line_items po) (Invoice.line_items invoice ! i)
            of Some p \<Rightarrow> quantity p | None \<Rightarrow> Finite 0) \<and>
         po_price (line_item_matches r ! i) =
           (case find_match (str_lower env) (PurchaseOrder.line_items po) (Invoice.line_items invoice ! i)
            of Some p \<Rightarrow> unit_price p | None \<Rightarrow> Finite 0) \<and>
         gr_qty (line_item_matches r ! i) =
           (case find_match (str_lower env) (GoodsReceipt.line_items gr) (Invoice.line_items invoice ! i)
            of Some g \<Rightarrow> quantity g | None \<Rightarrow> Finite 0)"
    using r by (simp add: rec line_record_def line_match_dict_def po_match_of_def gr_match_of_def)
qed

text \<open>
  Of two purchase-order lines "LAPTOPS" and "laptops", the first is the match of the invoice
  line "Laptops"; a line "Laptops " with a trailing blank is no match.
\<close>

theorem first_match_semantics_witness:
  "find_match ascii_lower [item ''LAPTOPS'' 1 1 1, item ''laptops'' 2 2 2]
     (item ''Laptops'' 10 1000 10000) = Some (item ''LAPTOPS'' 1 1 1) \<and>
   find_match ascii_lower [item ''Laptops '' 1 1 1] (item ''Laptops'' 10 1000 10000) = None"
proof -
  let ?items = "[item ''LAPTOPS'' 1 1 1, item ''laptops'' 2 2 2]"
  let ?inv_item = "item ''Laptops'' 10 1000 10000"
  have "0 < length ?items \<and> ?items ! 0 = item ''LAPTOPS'' 1 1 1 \<and>
      ascii_lower (LineItem.description (?items ! 0)) = ascii_lower (LineItem.description ?inv_item) \<and>
      (\<forall>j<0. ascii_lower (LineItem.description (?items ! j)) \<noteq>
         ascii_lower (LineItem.description ?inv_item))"
    by (simp add: item_def ascii_lower_def ascii_lower_char_def)
  then have "\<exists>k<length ?items. ?items ! k = item ''LAPTOPS'' 1 1 1 \<and>
      ascii_lower (LineItem.description (?items ! k)) = ascii_lower (LineItem.description ?inv_item) \<and>
      (\<forall>j<k. ascii_lower (LineItem.description (?items ! j)) \<noteq>
         ascii_lower (LineItem.description ?inv_item))"
    by (rule exI [of _ 0])
  then have first: "find_match ascii_lower ?items ?inv_item = Some (item ''LAPTOPS'' 1 1 1)"
    using first_match_semantics [where lower = ascii_lower and items = ?items
          and inv_item = ?inv_item and m = "item ''LAPTOPS'' 1 1 1",
        THEN conjunct2, THEN conjunct1]
    by (rule iffD2 [rotated])
  have "\<forall>x\<in>set [item ''Laptops '' 1 1 1].
      ascii_lower (LineItem.description x) \<noteq> ascii_lower (LineItem.description ?inv_item)"
    by (simp add: item_def ascii_lower_def ascii_lower_char_def)
  then have "find_match ascii_lower [item ''Laptops '' 1 1 1] ?inv_item = None"
    using first_match_semantics [where lower = ascii_lower
          and items = "[item ''Laptops '' 1 1 1]" and inv_item = ?inv_item, THEN conjunct1]
    by (rule iffD2 [rotated])
  with first show ?thesis by (rule conjI)
qed

subsection \<open>C6: the amount variance\<close>

text \<open>
  C6. When the identifiers are present and the \<open>i\<close>-th invoice line has the purchase-order
  match \<open>p\<close> and the goods-receipt match \<open>g\<close>, the amount variance of its match record is the
  absolute value of the difference between the amount of the invoice line and the product of
  the unit price of \<open>p\<close> and the quantity of \<open>g\<close>, the product and the difference being those
  of the floats. No quotient and no other document's quantity or price takes part.
\<close>

theorem amount_variance_formula:
  assumes "ids_present invoice po gr"
    and "i < length (Invoice.line_items invoice)"
    and "find_match (str_lower env) (PurchaseOrder.line_items po) (Invoice.line_items invoice ! i) = Some p"
    and "find_match (str_lower env) (GoodsReceipt.line_items gr) (Invoice.line_items invoice ! i) = Some g"
  shows "\<exists>r. perform_three_way_match env invoice po gr = Inr r \<and>
           amount_variance (line_item_matches r ! i) =
             py_abs (float_sub env (amount (Invoice.line_items invoice ! i))
                       (py_mul env (unit_price p) (quantity g)))"
proof -
  from perform_line [OF assms(1,2)] obtain r where
    r: "perform_three_way_match env invoice po gr = Inr r" and
    rec: "line_item_matches r ! i = line_record env po gr (Invoice.line_items invoice ! i)"
    by blast
  have "amount_variance (line_item_matches r ! i) =
      py_abs (float_sub env (amount (Invoice.line_items invoice ! i))
                (py_mul env (unit_price p) (quantity g)))"
    using matched_line_record(1) [OF assms(3,4)] by (simp add: rec amount_diff_of_def)
  with r show ?thesis by blast
qed

text \<open>The invoice amount 10000 against the unit price 1000 times the received quantity 8.\<close>

theorem amount_variance_formula_witness:
  "ids_present (test_invoice [item ''Laptops'' 10 1000 10000])
     (test_po [item ''Laptops'' 10 1000 10000]) (test_gr [item ''Laptops'' 8 1000 8000]) \<and>
   (\<exists>r. perform_three_way_match test_env (test_invoice [item ''Laptops'' 10 1000 10000])
          (test_po [item ''Laptops'' 10 1000 10000]) (test_gr [item ''Laptops'' 8 1000 8000]) = Inr r \<and>
        amount_variance (line_item_matches r ! 0) = Finite 2000)"
proof -
  let ?inv = "test_invoice [item ''Laptops'' 10 1000 10000]"
  let ?po = "test_po [item ''Laptops'' 10 1000 10000]"
  let ?gr = "test_gr [item ''Laptops'' 8 1000 8000]"
  have len: "0 < length (Invoice.line_items ?inv)"
    by (simp add: test_invoice_def)
  have p: "find_match (str_lower test_env) (PurchaseOrder.line_items ?po)
      (Invoice.line_items ?inv ! 0) = Some (item ''Laptops'' 10 1000 10000)"
    by (simp add: run_defs)
  have g: "find_match (str_lower test_env) (GoodsReceipt.line_items ?gr)
      (Invoice.line_items ?inv ! 0) = Some (item ''Laptops'' 8 1000 8000)"
    by (simp add: run_defs)
  have v: "py_abs (float_sub test_env (amount (Invoice.line_items ?inv ! 0))
      (py_mul test_env (unit_price (item ''Laptops'' 10 1000 10000))
         (quantity (item ''Laptops'' 8 1000 8000)))) = Finite 2000"
    by (simp add: test_invoice_def item_def test_env_def exact_def py_mul_def)
  from amount_variance_formula [OF test_ids len p g] obtain r where
    "perform_three_way_match test_env ?inv ?po ?gr = Inr r"
    "amount_variance (line_item_matches r ! 0) =
       py_abs (float_sub test_env (amount (Invoice.line_items ?inv ! 0))
         (py_mul test_env (unit_price (item ''Laptops'' 10 1000 10000))
            (quantity (item ''Laptops'' 8 1000 8000))))"
    by blast
  with v have "\<exists>r. perform_three_way_match test_env ?inv ?po ?gr = Inr r \<and>
      amount_variance (line_item_matches r ! 0) = Finite 2000"
    by simp
  with test_ids show ?thesis by blast
qed

subsection \<open>C7: the aggregates are plain running sums\<close>

text \<open>
  C7. When the identifiers are present, the result's total_variance, price_variance and
  quantity_variance are the running sums of lines 186 to 188: starting from 0, the float
  addition adds, line after line in the order of the invoice, the line's amount_diff,
  price_diff and qty_diff, with no weight and no division. The total_variance is in the same
  way the running sum of the amount variances of the match records. A line without a
  purchase-order match or without a goods-receipt match contributes the summand 0 to each sum;
  for a matched line the three summands are the values of lines 156 to 158.
\<close>

theorem aggregate_sums:
  assumes "ids_present invoice po gr"
  shows "\<exists>r. perform_three_way_match env invoice po gr = Inr r \<and>
     VerificationResult.total_variance r =
       foldl (float_add env) (Finite 0)
         (map (\<lambda>it. amount_diff (line_calc env po gr it)) (Invoice.line_items invoice)) \<and>
     VerificationResult.price_variance r =
       foldl (float_add env) (Finite 0)
         (map (\<lambda>it. price_diff (line_calc env po gr it)) (Invoice.line_items invoice)) \<and>
     VerificationResult.quantity_variance r =
       foldl (float_add env) (Finite 0)
         (map (\<lambda>it. qty_diff (line_calc env po gr it)) (Invoice.line_items invoice)) \<and>
     VerificationResult.total_variance r =
       foldl (float_add env) (Finite 0) (map amount_variance (line_item_matches r)) \<and>
     (\<forall>it. find_match (str_lower env) (PurchaseOrder.line_items po) it = None \<or>
           find_match (str_lower env) (GoodsReceipt.line_items gr) it = None \<longrightarrow>
           amount_diff (line_calc env po gr it) = Finite 0 \<and>
           price_diff (line_calc env po gr it) = Finite 0 \<and>
           qty_diff (line_calc env po gr it) = Finite 0) \<and>
     (\<forall>it p g. find_match (str_lower env) (PurchaseOrder.line_items po) it = Some p \<and>
           find_match (str_lower env) (GoodsReceipt.line_items gr) it = Some g \<longrightarrow>
           amount_diff (line_calc env po gr it) =
             py_abs (float_sub env (amount it) (py_mul env (unit_price p) (quantity g))) \<and>
           price_diff_of env it p = Inr (price_diff (line_calc env po gr it)) \<and>
           qty_diff_of env it g = Inr (qty_diff (line_calc env po gr it)))"
proof -
  have unmatched: "amount_diff (line_calc env po gr it) = Finite 0 \<and>
      price_diff (line_calc env po gr it) = Finite 0 \<and>
      qty_diff (line_calc env po gr it) = Finite 0"
    if "find_match (str_lower env) (PurchaseOrder.line_items po) it = None \<or>
        find_match (str_lower env) (GoodsReceipt.line_items gr) it = None" for it
  proof -
    from that have "no_match_line env po gr it"
      by (simp add: no_match_line_def po_match_of_def gr_match_of_def)
    then show ?thesis by (simp add: line_calc_no_match)
  qed
  have matched: "amount_diff (line_calc env po gr it) =
        py_abs (float_sub env (amount it) (py_mul env (unit_price p) (quantity g))) \<and>
      price_diff_of env it p = Inr (price_diff (line_calc env po gr it)) \<and>
      qty_diff_of env it g = Inr (qty_diff (line_calc env po gr it))"
    if "find_match (str_lower env) (PurchaseOrder.line_items po) it = Some p \<and>
        find_match (str_lower env) (GoodsReceipt.line_items gr) it = Some g" for it p g
  proof -
    from that have "po_match_of env po it = Some p" and "gr_match_of env gr it = Some g"
      by (simp_all add: po_match_of_def gr_match_of_def)
    from line_calc_matched(1,2,3) [OF this] show ?thesis
      by (simp add: amount_diff_of_def)
  qed
  have records: "map (amount_variance \<circ> line_record env po gr) its =
      map (\<lambda>it. amount_diff (line_calc env po gr it)) its" for its
    by (simp add: line_record_def line_match_dict_def)
  show ?thesis
    unfolding perform_result [OF assms]
    using unmatched matched by (simp add: records)
qed

text \<open>
  A matched line (amount 10000 against 1000 times 8, quantity 10 against 8) and a line
  "Monitors" that has no match: the sums are those of the first line alone.
\<close>

theorem aggregate_sums_witness:
  "ids_present (test_invoice [item ''Laptops'' 10 1000 10000, item ''Monitors'' 2 300 600])
     (test_po [item ''Laptops'' 10 1000 10000]) (test_gr [item ''Laptops'' 8 1000 8000]) \<and>
   (\<exists>r. perform_three_way_match test_env
          (test_invoice [item ''Laptops'' 10 1000 10000, item ''Monitors'' 2 300 600])
          (test_po [item ''Laptops'' 10 1000 10000]) (test_gr [item ''Laptops'' 8 1000 8000]) = Inr r \<and>
        VerificationResult.total_variance r = Finite 2000 \<and>
        VerificationResult.price_variance r = Finite 0 \<and>
        VerificationResult.quantity_variance r = Finite (1 / 4))"
proof -
  let ?inv = "test_invoice [item ''Laptops'' 10 1000 10000, item ''Monitors'' 2 300 600]"
  let ?po = "test_po [item ''Laptops'' 10 1000 10000]"
  let ?gr = "test_gr [item ''Laptops'' 8 1000 8000]"
  have a: "foldl (float_add test_env) (Finite 0)
      (map (\<lambda>it. amount_diff (line_calc test_env ?po ?gr it)) (Invoice.line_items ?inv)) =
      Finite 2000"
    by (simp add: run_defs)
  have p: "foldl (float_add test_env) (Finite 0)
      (map (\<lambda>it. price_diff (line_calc test_env ?po ?gr it)) (Invoice.line_items ?inv)) =
      Finite 0"
    by (simp add: run_defs)
  have q: "foldl (float_add test_env) (Finite 0)
      (map (\<lambda>it. qty_diff (line_calc test_env ?po ?gr it)) (Invoice.line_items ?inv)) =
      Finite (1 / 4)"
    by (simp add: run_defs)
  from aggregate_sums [OF test_ids, where env = test_env] obtain r where
    "perform_three_way_match test_env ?inv ?po ?gr = Inr r"
    "VerificationResult.total_variance r =
       foldl (float_add test_env) (Finite 0)
         (map (\<lambda>it. amount_diff (line_calc test_env ?po ?gr it)) (Invoice.line_items ?inv))"
    "VerificationResult.price_variance r =
       foldl (float_add test_env) (Finite 0)
         (map (\<lambda>it. price_diff (line_calc test_env ?po ?gr it)) (Invoice.line_items ?inv))"
    "VerificationResult.quantity_variance r =
       foldl (float_add test_env) (Finite 0)
         (map (\<lambda>it. qty_diff (line_calc test_env ?po ?gr it)) (Invoice.line_items ?inv))"
    by blast
  with a p q have "\<exists>r. perform_three_way_match test_env ?inv ?po ?gr = Inr r \<and>
        VerificationResult.total_variance r = Finite 2000 \<and>
        VerificationResult.price_variance r = Finite 0 \<and>
        VerificationResult.quantity_variance r = Finite (1 / 4)"
    by simp
  with test_ids show ?thesis by blast
qed

subsection \<open>C8: the shape of the result\<close>

text \<open>
  C8. When the identifiers are present, the function returns a result whose overall status is
  one of "pass", "warning" and "fail", and whose list of match records has one record for
  each invoice line, in the order of the invoice: the \<open>i\<close>-th record carries the description
  of the \<open>i\<close>-th invoice line.
\<close>

theorem result_shape:
  assumes "ids_present invoice po gr"
  shows "\<exists>r. perform_three_way_match env invoice po gr = Inr r \<and>
     VerificationResult.overall_status r \<in> {''pass'', ''warning'', ''fail''} \<and>
     length (line_item_matches r) = length (Invoice.line_items invoice) \<and>
     (\<forall>i<length (Invoice.line_items invoice).
        LineMatch.description (line_item_matches r ! i) =
        LineItem.description (Invoice.line_items invoice ! i))"
proof -
  have "foldl (status_after env po gr) ''pass'' (Invoice.line_items invoice)
      \<in> {''pass'', ''warning'', ''fail''}"
    unfolding foldl_status_after escalate_pass by simp
  then show ?thesis
    unfolding perform_result [OF assms]
    by (simp add: line_record_def line_match_dict_def)
qed

text \<open>An invoice of two lines gives two records, the second one for the second line.\<close>

theorem result_shape_witness:
  "ids_present (test_invoice [item ''Laptops'' 10 1000 10000, item ''Monitors'' 2 300 600])
     (test_po [item ''Laptops'' 10 1000 10000]) (test_gr [item ''Laptops'' 8 1000 8000]) \<and>
   (\<exists>r. perform_three_way_match test_env
          (test_invoice [item ''Laptops'' 10 1000 10000, item ''Monitors'' 2 300 600])
          (test_po [item ''Laptops'' 10 1000 10000]) (test_gr [item ''Laptops'' 8 1000 8000]) = Inr r \<and>
        length (line_item_matches r) = 2 \<and>
        LineMatch.description (line_item_matches r ! 1) = ''Monitors'')"
proof -
  let ?inv = "test_invoice [item ''Laptops'' 10 1000 10000, item ''Monitors'' 2 300 600]"
  have len: "length (Invoice.line_items ?inv) = 2"
    and d: "LineItem.description (Invoice.line_items ?inv ! 1) = ''Monitors''"
    by (simp_all add: test_invoice_def item_def)
  from result_shape [OF test_ids, where env = test_env] obtain r where
    r: "perform_three_way_match test_env ?inv (test_po [item ''Laptops'' 10 1000 10000])
          (test_gr [item ''Laptops'' 8 1000 8000]) = Inr r"
    and l: "length (line_item_matches r) = length (Invoice.line_items ?inv)"
    and a: "\<forall>i<length (Invoice.line_items ?inv).
        LineMatch.description (line_item_matches r ! i) =
        LineItem.description (Invoice.line_items ?inv ! i)"
    by blast
  from a len have "LineMatch.description (line_item_matches r ! 1) =
      LineItem.description (Invoice.line_items ?inv ! 1)"
    by simp
  with r l len d test_ids show ?thesis by simp
qed

subsection \<open>C9: an invoice without line items\<close>

text \<open>
  C9. When the identifiers are present and the invoice has no line items, then for every
  purchase order and goods receipt the function returns the overall status "pass", no match
  record, and the three aggregates 0.
\<close>

theorem empty_invoice:
  assumes "ids_present invoice po gr" and "Invoice.line_items invoice = []"
  shows "\<exists>r. perform_three_way_match env invoice po gr = Inr r \<and>
     VerificationResult.overall_status r = ''pass'' \<and>
     line_item_matches r = [] \<and>
     VerificationResult.total_variance r = Finite 0 \<and>
     VerificationResult.price_variance r = Finite 0 \<and>
     VerificationResult.quantity_variance r = Finite 0"
  unfolding perform_result [OF assms(1)] by (simp add: assms(2))

text \<open>An invoice without a line, against a purchase order and a goods receipt of one line.\<close>

theorem empty_invoice_witness:
  "ids_present (test_invoice []) (test_po [item ''Laptops'' 10 1000 10000])
     (test_gr [item ''Laptops'' 8 1000 8000]) \<and>
   Invoice.line_items (test_invoice []) = [] \<and>
   (\<exists>r. perform_three_way_match test_env (test_invoice []) (test_po [item ''Laptops'' 10 1000 10000])
          (test_gr [item ''Laptops'' 8 1000 8000]) = Inr r \<and>
        VerificationResult.overall_status r = ''pass'' \<and>
        line_item_matches r = [] \<and>
        VerificationResult.total_variance r = Finite 0 \<and>
        VerificationResult.price_variance r = Finite 0 \<and>
        VerificationResult.quantity_variance r = Finite 0)"
proof -
  have e: "Invoice.line_items (test_invoice []) = []"
    by (simp add: test_invoice_def)
  show ?thesis
    using test_ids e empty_invoice [OF test_ids e, where env = test_env] by blast
qed

subsection \<open>C10: the guards test strict positivity\<close>

text \<open>
  C10. The guards of lines 156 and 157 are \<open>> 0\<close>: a matched purchase-order line with a unit
  price of 0 or less gives price_diff 0, and a matched goods-receipt line with a quantity of 0
  or less gives qty_diff 0; so does every denominator that is not greater than 0. No division
  takes place there: the value is 0 whatever the division of the floats is (it is the same
  with any other division \<open>d\<close> in its place), and at a denominator 0 it is not the error that
  the division would have raised.
\<close>

theorem guards_are_strict_positivity:
  "(py_le (unit_price po_match) (Finite 0) \<longrightarrow>
      price_diff_of env inv_item po_match = Inr (Finite 0)) \<and>
   (py_le (quantity gr_match) (Finite 0) \<longrightarrow>
      qty_diff_of env inv_item gr_match = Inr (Finite 0)) \<and>
   (\<not> py_gt (unit_price po_match) (Finite 0) \<longrightarrow>
      price_diff_of env inv_item po_match = Inr (Finite 0)) \<and>
   (\<not> py_gt (quantity gr_match) (Finite 0) \<longrightarrow>
      qty_diff_of env inv_item gr_match = Inr (Finite 0)) \<and>
   (py_le (unit_price po_match) (Finite 0) \<longrightarrow>
      price_diff_of (env\<lparr>float_truediv := d\<rparr>) inv_item po_match = Inr (Finite 0)) \<and>
   (py_le (quantity gr_match) (Finite 0) \<longrightarrow>
      qty_diff_of (env\<lparr>float_truediv := d\<rparr>) inv_item gr_match = Inr (Finite 0)) \<and>
   (unit_price po_match = Finite 0 \<longrightarrow>
      price_diff_of env inv_item po_match \<noteq>
      py_div env (py_abs (float_sub env (unit_price inv_item) (unit_price po_match)))
        (unit_price po_match)) \<and>
   (quantity gr_match = Finite 0 \<longrightarrow>
      qty_diff_of env inv_item gr_match \<noteq>
      py_div env (py_abs (float_sub env (quantity inv_item) (quantity gr_match)))
        (quantity gr_match)) \<and>
   (\<exists>c os. calculate_variances env inv_item (Some po_match) (Some gr_match) overall = Inr (c, os) \<and>
      (py_le (unit_price po_match) (Finite 0) \<longrightarrow> price_diff c = Finite 0) \<and>
      (py_le (quantity gr_match) (Finite 0) \<longrightarrow> qty_diff c = Finite 0))"
proof -
  have ngt: "\<not> py_gt x (Finite 0)" if "py_le x (Finite 0)" for x
    using that by (rule py_le_not_gt)
  have p: "price_diff_of e inv_item po_match = Inr (Finite 0)"
    if "\<not> py_gt (unit_price po_match) (Finite 0)" for e
    using that by (simp add: price_diff_of_def)
  have q: "qty_diff_of e inv_item gr_match = Inr (Finite 0)"
    if "\<not> py_gt (quantity gr_match) (Finite 0)" for e
    using that by (simp add: qty_diff_of_def)
  have pz: "unit_price po_match = Finite 0 \<longrightarrow>
      price_diff_of env inv_item po_match \<noteq>
      py_div env (py_abs (float_sub env (unit_price inv_item) (unit_price po_match)))
        (unit_price po_match)"
    by (auto simp: price_diff_of_def py_div_def)
  have qz: "quantity gr_match = Finite 0 \<longrightarrow>
      qty_diff_of env inv_item gr_match \<noteq>
      py_div env (py_abs (float_sub env (quantity inv_item) (quantity gr_match)))
        (quantity gr_match)"
    by (auto simp: qty_diff_of_def py_div_def)
  have cv: "\<exists>c os. calculate_variances env inv_item (Some po_match) (Some gr_match) overall =
        Inr (c, os) \<and>
      (py_le (unit_price po_match) (Finite 0) \<longrightarrow> price_diff c = Finite 0) \<and>
      (py_le (quantity gr_match) (Finite 0) \<longrightarrow> qty_diff c = Finite 0)"
    using ngt [of "unit_price po_match"] ngt [of "quantity gr_match"]
    by (auto simp: price_diff_of_Inr qty_diff_of_Inr Let_def split: prod.splits)
  show ?thesis
    using ngt p q pz qz cv by blast
qed

text \<open>A purchase-order line with unit price -5 and a goods-receipt line with quantity -2.\<close>

theorem guards_are_strict_positivity_witness:
  "py_le (unit_price (item ''Laptops'' 10 (- 5) (- 50))) (Finite 0) \<and>
   price_diff_of test_env (item ''Laptops'' 10 1000 10000) (item ''Laptops'' 10 (- 5) (- 50)) =
     Inr (Finite 0) \<and>
   py_le (quantity (item ''Laptops'' (- 2) 1000 (- 2000))) (Finite 0) \<and>
   qty_diff_of test_env (item ''Laptops'' 10 1000 10000) (item ''Laptops'' (- 2) 1000 (- 2000)) =
     Inr (Finite 0)"
proof -
  have p: "py_le (unit_price (item ''Laptops'' 10 (- 5) (- 50))) (Finite 0)"
    and q: "py_le (quantity (item ''Laptops'' (- 2) 1000 (- 2000))) (Finite 0)"
    by (simp_all add: item_def)
  show ?thesis
    using p q
      guards_are_strict_positivity [where env = test_env
        and inv_item = "item ''Laptops'' 10 1000 10000"
        and po_match = "item ''Laptops'' 10 (- 5) (- 50)"
        and gr_match = "item ''Laptops'' (- 2) 1000 (- 2000)"]
    by blast
qed

end
